theory Spec2Isabelle
  imports Complex_Main "HOL-Library.Log_Nat" "HOL-Library.Multiset"
begin

section \<open>Documents and collections\<close>

text \<open>
  The backend keeps three collections of documents: users, projects and tasks.
  An ObjectId is modelled by its hexadecimal string, so \<open>toString\<close> and
  \<open>new Types.ObjectId\<close> are the identity: every identifier is taken to be a
  well-formed ObjectId, and the caller's \<open>userId\<close> to be the string of the
  caller's \<open>_id\<close>. A \<open>Date\<close> is its number of milliseconds since the epoch.
  A collection is the list of its documents in insertion order. Each call runs alone
  on the store.
\<close>

type_synonym oid = string
type_synonym date = int

datatype UserRole = ADMIN | MEMBER

datatype TaskStatus = TODO | IN_PROGRESS | DONE

datatype TaskPriority = LOW | MEDIUM | HIGH

record User =
  user_id :: oid
  user_name :: string
  email :: string

record Project =
  project_id :: oid
  name :: string
  key :: string
  members :: "oid list"
  project_createdBy :: oid
  project_createdAt :: date
  project_updatedAt :: date

record Task =
  task_id :: oid
  projectId :: oid
  title :: string
  description :: "string option"
  status :: TaskStatus
  priority :: TaskPriority
  assignee :: "oid option"
  dueDate :: "date option"
  createdBy :: oid
  createdAt :: date
  updatedAt :: date

record Store =
  userModel :: "User list"
  projectModel :: "Project list"
  taskModel :: "Task list"

text \<open>
  What the services throw. \<open>NotFoundException\<close> and \<open>ForbiddenException\<close> carry
  the message of the source; \<open>TypeError\<close> is the uncaught error of reading a property
  of \<open>null\<close>, \<open>ValidationError\<close> the mapper's refusal to save a document without
  a required field, and \<open>MongoServerError\<close> the database's rejection of a query.
  The last three reach the client as status 500.
\<close>

datatype HttpException =
    NotFoundException string
  | ForbiddenException string
  | TypeError
  | ValidationError
  | MongoServerError




text \<open>
  What the code takes from its environment: the clock, the identifier given to a new
  document, the rendering and parsing of dates, and the database's text search.
\<close>

record Env =
  now :: date
  newId :: oid
  toISOString :: "date \<Rightarrow> string"
  parseDate :: "string \<Rightarrow> date"
  textSearch :: "string \<Rightarrow> Task \<Rightarrow> bool"

subsection \<open>The document mapper\<close>

definition findById :: "('d \<Rightarrow> oid) \<Rightarrow> 'd list \<Rightarrow> oid \<Rightarrow> 'd option" where
  "findById idOf docs i = find (\<lambda>d. idOf d = i) docs"

fun findByIdAndDelete :: "('d \<Rightarrow> oid) \<Rightarrow> 'd list \<Rightarrow> oid \<Rightarrow> 'd option \<times> 'd list" where
  "findByIdAndDelete idOf [] i = (None, [])"
| "findByIdAndDelete idOf (d # ds) i =
     (if idOf d = i then (Some d, ds)
      else (case findByIdAndDelete idOf ds i of (r, ds') \<Rightarrow> (r, d # ds')))"

fun findByIdAndUpdate :: "('d \<Rightarrow> oid) \<Rightarrow> 'd list \<Rightarrow> oid \<Rightarrow> ('d \<Rightarrow> 'd) \<Rightarrow> 'd option \<times> 'd list" where
  "findByIdAndUpdate idOf [] i f = (None, [])"
| "findByIdAndUpdate idOf (d # ds) i f =
     (if idOf d = i then (Some (f d), f d # ds)
      else (case findByIdAndUpdate idOf ds i f of (r, ds') \<Rightarrow> (r, d # ds')))"

definition countDocuments :: "('d \<Rightarrow> bool) \<Rightarrow> 'd list \<Rightarrow> nat" where
  "countDocuments flt docs = length (filter flt docs)"


text \<open>
  A JavaScript string is truthy when it is not empty; an absent one is not.
  \<open>ifTruthy\<close> is the string of a truthy field.
\<close>

fun ifTruthy :: "string option \<Rightarrow> string option" where
  "ifTruthy None = None"
| "ifTruthy (Some s) = (if s = [] then None else Some s)"

definition truthy :: "string option \<Rightarrow> bool" where
  "truthy x = (ifTruthy x \<noteq> None)"

text \<open>\<open>populate\<close> of a reference: the referenced user, or \<open>null\<close>.\<close>

definition populateUser :: "Store \<Rightarrow> oid \<Rightarrow> User option" where
  "populateUser s u = findById user_id (userModel s) u"




section \<open>ProjectsService\<close>

text \<open>
  The two tests every project-scoped operation makes on a caller that is not an admin:
  \<open>project.members.some(member => member.toString() === userId)\<close> and
  \<open>taskModel.exists({ projectId, assignee: userId })\<close>.
\<close>

definition isMember :: "Project \<Rightarrow> oid \<Rightarrow> bool" where
  "isMember project userId = list_ex (\<lambda>member. member = userId) (members project)"



text \<open>\<open>ProjectsService.remove\<close>: the role is tested first, then the project is deleted.\<close>

definition project_remove :: "Store \<Rightarrow> oid \<Rightarrow> UserRole \<Rightarrow> (HttpException + unit) \<times> Store" where
  "project_remove s i userRole =
     (if userRole \<noteq> ADMIN then (Inl (ForbiddenException ''Only admins can delete projects''), s)
      else (case findByIdAndDelete project_id (projectModel s) i of
              (None, ps) \<Rightarrow> (Inl (NotFoundException ''Project not found''), s\<lparr>projectModel := ps\<rparr>)
            | (Some _, ps) \<Rightarrow> (Inr (), s\<lparr>projectModel := ps\<rparr>)))"



section \<open>TasksService\<close>

subsection \<open>Requests and responses\<close>

record CreateTaskDto =
  c_title :: string
  c_description :: "string option"
  c_status :: "TaskStatus option"
  c_priority :: "TaskPriority option"
  c_assignee :: "string option"
  c_dueDate :: "string option"

record UpdateTaskDto =
  u_title :: "string option"
  u_description :: "string option"
  u_status :: "TaskStatus option"
  u_priority :: "TaskPriority option"
  u_assignee :: "string option"
  u_dueDate :: "string option"

record QueryTasksDto =
  q_status :: "TaskStatus option"
  q_assignee :: "string option"
  q_q :: "string option"
  q_priority :: "TaskPriority option"
  q_dueFrom :: "string option"
  q_dueTo :: "string option"
  q_page :: "string option"
  q_limit :: "string option"

record PopulatedTask =
  task_doc :: Task
  assigneeUser :: "User option"
  createdByUser :: "User option"

definition populateTask :: "Store \<Rightarrow> Task \<Rightarrow> PopulatedTask" where
  "populateTask s t =
     \<lparr> task_doc = t,
       assigneeUser = (case assignee t of None \<Rightarrow> None | Some a \<Rightarrow> populateUser s a),
       createdByUser = populateUser s (createdBy t) \<rparr>"

record Pagination =
  page :: int
  limit :: int
  total :: nat
  pages :: int

record TaskPage =
  tasks :: "PopulatedTask list"
  pagination :: Pagination


record ProjectSummary =
  sum_total :: nat
  sum_todo :: nat
  sum_inProgress :: nat
  sum_done :: nat
  sum_overdue :: nat
  completionRate :: int



subsection \<open>Creating a task\<close>


subsection \<open>Listing the tasks of a project\<close>

text \<open>
  \<open>parseInt\<close> with no radix: leading white space is skipped, a sign is read, a
  \<open>0x\<close> prefix selects base 16, and the longest prefix of digits is the value;
  \<open>None\<close> is \<open>NaN\<close>. Characters are ASCII, and the value is the exact integer
  (a JavaScript number is exact below \<open>2^53\<close>).
\<close>

definition isWhiteSpace :: "char \<Rightarrow> bool" where
  "isWhiteSpace c = (c \<in> set [CHR 0x09, CHR 0x0A, CHR 0x0B, CHR 0x0C, CHR 0x0D, CHR 0x20])"

definition digitValue :: "char \<Rightarrow> nat" where
  "digitValue c =
     (let n = (of_char c :: nat) in
      if 48 \<le> n \<and> n \<le> 57 then n - 48
      else if 97 \<le> n \<and> n \<le> 122 then n - 87
      else if 65 \<le> n \<and> n \<le> 90 then n - 55
      else 36)"

definition parseInt :: "string \<Rightarrow> int option" where
  "parseInt inputString =
     (let S = dropWhile isWhiteSpace inputString;
          sign = (case S of c # _ \<Rightarrow> if c = CHR ''-'' then - 1 else 1 | [] \<Rightarrow> (1 :: int));
          S1 = (case S of c # cs \<Rightarrow> if c = CHR ''+'' \<or> c = CHR ''-'' then cs else S | [] \<Rightarrow> S);
          hex = (take 2 S1 = ''0x'' \<or> take 2 S1 = ''0X'');
          R = (if hex then 16 else 10);
          S2 = (if hex then drop 2 S1 else S1);
          Z = takeWhile (\<lambda>c. digitValue c < R) S2
      in if Z = [] then None
         else Some (sign * int (foldl (\<lambda>acc c. acc * R + digitValue c) 0 Z)))"

text \<open>\<open>parseInt(x) || d\<close>: \<open>NaN\<close> and \<open>0\<close> are falsy; an absent parameter parses to \<open>NaN\<close>.\<close>

definition parseIntOr :: "string option \<Rightarrow> int \<Rightarrow> int" where
  "parseIntOr x d =
     (case x of
        None \<Rightarrow> d
      | Some str \<Rightarrow> (case parseInt str of None \<Rightarrow> d | Some n \<Rightarrow> if n = 0 then d else n))"

text \<open>
  The decimal numeral of a natural number, as a client writes it in \<open>page=2\<close>, and
  the characters such a numeral is made of.
\<close>

fun decimal :: "nat \<Rightarrow> string" where
  "decimal n =
     (if n < 10 then [''0123456789'' ! n]
      else decimal (n div 10) @ [''0123456789'' ! (n mod 10)])"

declare decimal.simps [simp del]



text \<open>\<open>sort({ createdAt: -1 })\<close>: newest first; documents of one instant keep their order.\<close>

definition sortByCreatedAtDesc :: "Task list \<Rightarrow> Task list" where
  "sortByCreatedAtDesc ts = sort_key (\<lambda>t. - createdAt t) ts"


subsection \<open>Reading and updating one task\<close>


text \<open>
  The update document of \<open>TasksService.update\<close>: the fields of the request, with
  \<open>assignee\<close> and \<open>dueDate\<close> taken from the task as read when the request has no
  truthy value for them.
\<close>

definition updateDocument :: "Env \<Rightarrow> UpdateTaskDto \<Rightarrow> Task \<Rightarrow> Task \<Rightarrow> Task" where
  "updateDocument env dto task d =
     d\<lparr> title := (case u_title dto of None \<Rightarrow> title d | Some x \<Rightarrow> x),
        description := (case u_description dto of None \<Rightarrow> description d | Some x \<Rightarrow> Some x),
        status := (case u_status dto of None \<Rightarrow> status d | Some x \<Rightarrow> x),
        priority := (case u_priority dto of None \<Rightarrow> priority d | Some x \<Rightarrow> x),
        assignee := (case ifTruthy (u_assignee dto) of None \<Rightarrow> assignee task | Some a \<Rightarrow> Some a),
        dueDate := (case ifTruthy (u_dueDate dto) of
                      None \<Rightarrow> dueDate task
                    | Some x \<Rightarrow> Some (parseDate env x)),
        updatedAt := now env \<rparr>"

definition task_update ::
  "Env \<Rightarrow> Store \<Rightarrow> oid \<Rightarrow> UpdateTaskDto \<Rightarrow> oid \<Rightarrow> UserRole
     \<Rightarrow> (HttpException + PopulatedTask option) \<times> Store" where
  "task_update env s i dto userId userRole =
     (case findById task_id (taskModel s) i of
        None \<Rightarrow> (Inl (NotFoundException ''Task not found''), s)
      | Some task \<Rightarrow>
          (let project = findById project_id (projectModel s) (projectId task);
               updated =
                 (case findByIdAndUpdate task_id (taskModel s) i (updateDocument env dto task) of
                    (r, ts) \<Rightarrow>
                      (let s' = s\<lparr>taskModel := ts\<rparr> in (Inr (map_option (populateTask s') r), s')))
           in if userRole \<noteq> ADMIN
              then (case project of
                      None \<Rightarrow> (Inl TypeError, s)
                    | Some p \<Rightarrow>
                        if \<not> isMember p userId
                        then (Inl (ForbiddenException ''Access denied to this project''), s)
                        else if assignee task \<noteq> Some userId
                        then (Inl (ForbiddenException ''You can only update tasks assigned to you''), s)
                        else updated)
              else updated))"

subsection \<open>Deleting a task\<close>


subsection \<open>The project summary\<close>

text \<open>
  JavaScript numbers are IEEE 754 doubles. A finite double is \<open>mant * 2 ^ expo\<close>;
  \<open>nearestDouble a b k\<close> is the double nearest to \<open>(a / b) * 2 ^ k\<close> for positive
  \<open>a\<close> and \<open>b\<close>, ties to the even mantissa: with \<open>2 ^ e \<le> a / b < 2 ^ (e + 1)\<close>
  the mantissa is \<open>a / b\<close> scaled by \<open>2 ^ (52 - e)\<close> and rounded to an integer. The
  bounds of the exponent (overflow, subnormal numbers) are not modelled; a ratio of two
  counts and its product with 100 are far from them.
\<close>

record Double =
  mant :: int
  expo :: int

definition roundQuotient :: "int \<Rightarrow> int \<Rightarrow> int" where
  "roundQuotient a b =
     (let q = a div b; r = a mod b in
      if 2 * r < b then q else if b < 2 * r then q + 1 else if even q then q else q + 1)"

definition nearestDouble :: "int \<Rightarrow> int \<Rightarrow> int \<Rightarrow> Double" where
  "nearestDouble a b k =
     (let e0 = bitlen a - bitlen b;
          e = (if (if 0 \<le> e0 then 2 ^ nat e0 * b \<le> a else b \<le> 2 ^ nat (- e0) * a)
               then e0 else e0 - 1);
          sh = e - 52;
          m = (if 0 \<le> sh then roundQuotient a (b * 2 ^ nat sh)
               else roundQuotient (a * 2 ^ nat (- sh)) b)
      in \<lparr>mant = m, expo = sh + k\<rparr>)"

text \<open>The number a double stands for.\<close>

definition valueOf :: "Double \<Rightarrow> rat" where
  "valueOf d = rat_of_int (mant d) * 2 powi (expo d)"

text \<open>The quotient of two counts, and the product of a double with an integer.\<close>

definition fdiv :: "nat \<Rightarrow> nat \<Rightarrow> Double" where
  "fdiv x y = (if x = 0 then \<lparr>mant = 0, expo = 0\<rparr> else nearestDouble (int x) (int y) 0)"

definition fmul :: "Double \<Rightarrow> int \<Rightarrow> Double" where
  "fmul d n =
     (if mant d = 0 then \<lparr>mant = 0, expo = 0\<rparr> else nearestDouble (mant d * n) 1 (expo d))"

text \<open>\<open>Math.round\<close>: the nearest integer, a half rounding up.\<close>

definition Math_round :: "Double \<Rightarrow> int" where
  "Math_round d =
     (if 0 \<le> expo d then mant d * 2 ^ nat (expo d)
      else (2 * mant d + 2 ^ nat (- expo d)) div 2 ^ nat (1 - expo d))"

text \<open>\<open>TasksService.getProjectSummary\<close>.\<close>

definition getProjectSummary ::
  "Env \<Rightarrow> Store \<Rightarrow> oid \<Rightarrow> oid \<Rightarrow> UserRole \<Rightarrow> HttpException + ProjectSummary" where
  "getProjectSummary env s pid userId userRole =
     (case findById project_id (projectModel s) pid of
        None \<Rightarrow> Inl (NotFoundException ''Project not found'')
      | Some project \<Rightarrow>
          if userRole \<noteq> ADMIN \<and> \<not> isMember project userId
          then Inl (ForbiddenException ''Access denied to this project dashboard'')
          else
            (let totalTasks = countDocuments (\<lambda>t. projectId t = pid) (taskModel s);
                 todoTasks = countDocuments (\<lambda>t. projectId t = pid \<and> status t = TODO) (taskModel s);
                 inProgressTasks =
                   countDocuments (\<lambda>t. projectId t = pid \<and> status t = IN_PROGRESS) (taskModel s);
                 doneTasks = countDocuments (\<lambda>t. projectId t = pid \<and> status t = DONE) (taskModel s);
                 overdueTasks =
                   countDocuments
                     (\<lambda>t. projectId t = pid
                          \<and> (case dueDate t of None \<Rightarrow> False | Some d \<Rightarrow> d < now env)
                          \<and> status t \<noteq> DONE)
                     (taskModel s)
             in Inr \<lparr> sum_total = totalTasks, sum_todo = todoTasks,
                      sum_inProgress = inProgressTasks, sum_done = doneTasks,
                      sum_overdue = overdueTasks,
                      completionRate =
                        (if totalTasks > 0 then Math_round (fmul (fdiv doneTasks totalTasks) 100)
                         else 0) \<rparr>))"

subsection \<open>The CSV export\<close>















section \<open>Example data\<close>

text \<open>
  A small store used to run the operations: an admin \<open>a1\<close>, a member \<open>u1\<close> of
  project \<open>p1\<close>, a user \<open>u2\<close> who is no member of \<open>p1\<close> but is assigned its task
  \<open>t2\<close>, and a user \<open>u3\<close> with no tie to \<open>p1\<close>.
\<close>

definition demoUsers :: "User list" where
  "demoUsers =
     [\<lparr>user_id = ''a1'', user_name = ''Ada'', email = ''ada@example.com''\<rparr>,
      \<lparr>user_id = ''u1'', user_name = ''Bob'', email = ''bob@example.com''\<rparr>,
      \<lparr>user_id = ''u2'', user_name = ''Cy'', email = ''cy@example.com''\<rparr>,
      \<lparr>user_id = ''u3'', user_name = ''Di'', email = ''di@example.com''\<rparr>]"

definition demoProject :: Project where
  "demoProject =
     \<lparr>project_id = ''p1'', name = ''Team Board'', key = ''TB'', members = [''u1''],
      project_createdBy = ''a1'', project_createdAt = 1000, project_updatedAt = 1000\<rparr>"

definition demoTask1 :: Task where
  "demoTask1 =
     \<lparr>task_id = ''t1'', projectId = ''p1'', title = ''Write'', description = Some ''docs'',
      status = TODO, priority = MEDIUM, assignee = Some ''u1'', dueDate = Some 5000,
      createdBy = ''a1'', createdAt = 2000, updatedAt = 2000\<rparr>"

definition demoTask2 :: Task where
  "demoTask2 =
     \<lparr>task_id = ''t2'', projectId = ''p1'', title = ''Review'', description = None,
      status = DONE, priority = HIGH, assignee = Some ''u2'', dueDate = None,
      createdBy = ''u1'', createdAt = 3000, updatedAt = 3000\<rparr>"

definition demoTask3 :: Task where
  "demoTask3 =
     \<lparr>task_id = ''t3'', projectId = ''p1'', title = ''Ship'', description = None,
      status = IN_PROGRESS, priority = LOW, assignee = None, dueDate = Some 2500,
      createdBy = ''a1'', createdAt = 4000, updatedAt = 4000\<rparr>"

definition demoStore :: Store where
  "demoStore =
     \<lparr>userModel = demoUsers, projectModel = [demoProject],
      taskModel = [demoTask1, demoTask2, demoTask3]\<rparr>"

definition demoEnv :: Env where
  "demoEnv =
     \<lparr>now = 9000, newId = ''t9'', toISOString = (\<lambda>d. ''1970-01-01T00:00:09.000Z''),
      parseDate = (\<lambda>s. 0), textSearch = (\<lambda>q t. True)\<rparr>"

definition demoCreate :: CreateTaskDto where
  "demoCreate =
     \<lparr>c_title = ''Plan'', c_description = None, c_status = None, c_priority = None,
      c_assignee = None, c_dueDate = None\<rparr>"

definition demoQuery :: QueryTasksDto where
  "demoQuery =
     \<lparr>q_status = None, q_assignee = None, q_q = None, q_priority = None, q_dueFrom = None,
      q_dueTo = None, q_page = None, q_limit = None\<rparr>"

definition demoUpdate :: UpdateTaskDto where
  "demoUpdate =
     \<lparr>u_title = Some ''Rewrite'', u_description = None, u_status = Some DONE, u_priority = None,
      u_assignee = Some [], u_dueDate = None\<rparr>"



text \<open>A project \<open>p2\<close> with forty tasks, of which twenty-three are done.\<close>

definition rateTask :: "nat \<Rightarrow> Task" where
  "rateTask n =
     \<lparr>task_id = ''r'' @ decimal n, projectId = ''p2'', title = ''Item'', description = None,
      status = (if n < 23 then DONE else TODO), priority = MEDIUM, assignee = None,
      dueDate = None, createdBy = ''a1'', createdAt = 1000 + int n, updatedAt = 1000 + int n\<rparr>"

definition rateStore :: Store where
  "rateStore =
     \<lparr>userModel = demoUsers, projectModel = [demoProject\<lparr>project_id := ''p2''\<rparr>],
      taskModel = map rateTask [0..<40]\<rparr>"

lemmas demo_defs =
  demoStore_def demoUsers_def demoProject_def demoTask1_def demoTask2_def demoTask3_def
  demoEnv_def demoCreate_def demoQuery_def demoUpdate_def

section \<open>Properties of the document mapper\<close>





lemma findById_Some_id: "findById idOf ds i = Some d \<Longrightarrow> idOf d = i \<and> d \<in> set ds"
  unfolding findById_def by (auto simp: find_Some_iff)

lemma findByIdAndDelete_remove1:
  "findById idOf ds i = Some d \<Longrightarrow> findByIdAndDelete idOf ds i = (Some d, remove1 d ds)"
proof (induction ds)
  case Nil
  then show ?case by (simp add: findById_def)
next
  case (Cons x xs)
  show ?case
  proof (cases "idOf x = i")
    case True
    with Cons.prems show ?thesis by (simp add: findById_def)
  next
    case False
    with Cons.prems have f: "findById idOf xs i = Some d" by (simp add: findById_def)
    from findById_Some_id[OF f] False have "x \<noteq> d" by auto
    with Cons.IH[OF f] False show ?thesis by simp
  qed
qed

lemma findById_remove1_None:
  assumes "distinct (map idOf ds)" and "findById idOf ds i = Some d"
  shows "findById idOf (remove1 d ds) i = None"
  using assms
proof (induction ds)
  case Nil
  then show ?case by (simp add: findById_def)
next
  case (Cons x xs)
  show ?case
  proof (cases "idOf x = i")
    case True
    with Cons.prems have dx: "d = x" by (simp add: findById_def)
    from Cons.prems True have "\<forall>y \<in> set xs. idOf y \<noteq> i" by (auto simp: image_iff)
    then have "find (\<lambda>y. idOf y = i) xs = None" by (simp add: find_None_iff)
    with dx show ?thesis by (simp add: findById_def)
  next
    case False
    with Cons.prems have f: "findById idOf xs i = Some d" by (simp add: findById_def)
    with findById_Some_id[OF f] False have "x \<noteq> d" by auto
    with Cons False f show ?thesis by (simp add: findById_def)
  qed
qed

section \<open>Role gates\<close>



section \<open>Deleting a project\<close>

text \<open>
  C7. Deleting an existing project as admin removes that project document and nothing
  else: the task collection and the user collection are the ones before the call, so
  every task of the deleted project is still stored, and (identifiers being unique in the
  project collection) its \<open>projectId\<close> now names no project.
\<close>

theorem project_remove_keeps_tasks:
  assumes "findById project_id (projectModel s) i = Some p"
    and "distinct (map project_id (projectModel s))"
  shows "project_remove s i ADMIN = (Inr (), s\<lparr>projectModel := remove1 p (projectModel s)\<rparr>)
       \<and> taskModel (snd (project_remove s i ADMIN)) = taskModel s
       \<and> userModel (snd (project_remove s i ADMIN)) = userModel s
       \<and> filter (\<lambda>t. projectId t = i) (taskModel (snd (project_remove s i ADMIN)))
           = filter (\<lambda>t. projectId t = i) (taskModel s)
       \<and> findById project_id (projectModel (snd (project_remove s i ADMIN))) i = None"
proof -
  have eq: "project_remove s i ADMIN = (Inr (), s\<lparr>projectModel := remove1 p (projectModel s)\<rparr>)"
    by (simp add: project_remove_def findByIdAndDelete_remove1[OF assms(1)])
  moreover have "findById project_id (remove1 p (projectModel s)) i = None"
    by (rule findById_remove1_None[OF assms(2) assms(1)])
  ultimately show ?thesis by simp
qed

theorem project_remove_keeps_tasks_witness:
  "project_remove demoStore ''p1'' ADMIN = (Inr (), demoStore\<lparr>projectModel := []\<rparr>)
   \<and> taskModel (snd (project_remove demoStore ''p1'' ADMIN)) = [demoTask1, demoTask2, demoTask3]
   \<and> filter (\<lambda>t. projectId t = ''p1'') (taskModel (snd (project_remove demoStore ''p1'' ADMIN)))
       = [demoTask1, demoTask2, demoTask3]
   \<and> findById project_id (projectModel (snd (project_remove demoStore ''p1'' ADMIN))) ''p1'' = None"
proof -
  have f: "findById project_id (projectModel demoStore) ''p1'' = Some demoProject"
    by (simp add: findById_def demoStore_def demoProject_def)
  have d: "distinct (map project_id (projectModel demoStore))"
    by (simp add: demoStore_def)
  have r: "remove1 demoProject (projectModel demoStore) = []"
    by (simp add: demoStore_def)
  have c: "project_remove demoStore ''p1'' ADMIN = (Inr (), demoStore\<lparr>projectModel := []\<rparr>)"
    using project_remove_keeps_tasks[OF f d] r by simp
  show ?thesis
    unfolding c by (simp add: findById_def demo_defs)
qed

section \<open>Access to a project and its tasks\<close>









lemma demo_task1: "findById task_id (taskModel demoStore) ''t1'' = Some demoTask1"
  by (simp add: findById_def demoStore_def demoTask1_def)









section \<open>Updating a task\<close>


lemma findByIdAndUpdate_fst:
  "findById idOf ds i = Some d \<Longrightarrow> fst (findByIdAndUpdate idOf ds i f) = Some (f d)"
proof (induction ds)
  case Nil
  then show ?case by (simp add: findById_def)
next
  case (Cons x xs)
  then show ?case
    by (cases "idOf x = i") (simp_all add: findById_def case_prod_beta)
qed

lemma findByIdAndUpdate_snd:
  "findById idOf ds i = Some d \<Longrightarrow> idOf (f d) = i
     \<Longrightarrow> findById idOf (snd (findByIdAndUpdate idOf ds i f)) i = Some (f d)"
proof (induction ds)
  case Nil
  then show ?case by (simp add: findById_def)
next
  case (Cons x xs)
  show ?case
  proof (cases "idOf x = i")
    case True
    with Cons.prems show ?thesis by (simp add: findById_def)
  next
    case False
    with Cons.prems have "findById idOf xs i = Some d" by (simp add: findById_def)
    from Cons.IH[OF this Cons.prems(2)] False show ?thesis
      by (simp add: findById_def case_prod_beta)
  qed
qed

lemma findByIdAndUpdate_found:
  assumes "findById idOf ds i = Some d" and "idOf (f d) = i"
  shows "\<exists>ds'. findByIdAndUpdate idOf ds i f = (Some (f d), ds')
             \<and> findById idOf ds' i = Some (f d)"
  using assms findByIdAndUpdate_fst[of idOf ds i d f] findByIdAndUpdate_snd[of idOf ds i d f]
  by (cases "findByIdAndUpdate idOf ds i f") simp

lemma task_id_updateDocument [simp]: "task_id (updateDocument env dto task d) = task_id d"
  by (simp add: updateDocument_def)

lemma task_update_performed:
  assumes "findById task_id (taskModel s) i = Some task"
    and "userRole = ADMIN
         \<or> (\<exists>p. findById project_id (projectModel s) (projectId task) = Some p
                \<and> isMember p userId \<and> assignee task = Some userId)"
  shows "\<exists>ts. task_update env s i dto userId userRole
              = (Inr (Some (populateTask (s\<lparr>taskModel := ts\<rparr>) (updateDocument env dto task task))),
                 s\<lparr>taskModel := ts\<rparr>)
            \<and> findById task_id ts i = Some (updateDocument env dto task task)"
proof -
  from findById_Some_id[OF assms(1)] have "task_id (updateDocument env dto task task) = i"
    by simp
  from findByIdAndUpdate_found[of task_id "taskModel s" i task "updateDocument env dto task"]
    assms(1) this
  obtain ts where ts: "findByIdAndUpdate task_id (taskModel s) i (updateDocument env dto task)
        = (Some (updateDocument env dto task task), ts)"
    and f: "findById task_id ts i = Some (updateDocument env dto task task)"
    by auto
  from assms ts f show ?thesis
    by (auto simp: task_update_def Let_def)
qed





section \<open>Missing projects and tasks\<close>






section \<open>Fields an update cannot clear\<close>

lemma ifTruthy_None_iff: "(ifTruthy x = None) = (\<not> truthy x)"
  by (simp add: truthy_def)


text \<open>
  C10. After an update that succeeds, the stored task has the assignee it had before when
  the request has no assignee or an empty one, and likewise the due date; and an
  assignee or due date that was set is still set, whatever the request holds.
\<close>

theorem update_keeps_assignee_and_dueDate:
  assumes "task_update env s i dto userId userRole = (Inr r, s')"
  shows "\<exists>before after.
           findById task_id (taskModel s) i = Some before
         \<and> findById task_id (taskModel s') i = Some after
         \<and> (\<not> truthy (u_assignee dto) \<longrightarrow> assignee after = assignee before)
         \<and> (\<not> truthy (u_dueDate dto) \<longrightarrow> dueDate after = dueDate before)
         \<and> (assignee before \<noteq> None \<longrightarrow> assignee after \<noteq> None)
         \<and> (dueDate before \<noteq> None \<longrightarrow> dueDate after \<noteq> None)"
proof -
  from assms obtain task where task: "findById task_id (taskModel s) i = Some task"
    by (cases "findById task_id (taskModel s) i") (auto simp: task_update_def)
  from assms task have ok: "userRole = ADMIN
         \<or> (\<exists>p. findById project_id (projectModel s) (projectId task) = Some p
                \<and> isMember p userId \<and> assignee task = Some userId)"
    by (auto simp: task_update_def Let_def split: option.splits if_splits)
  from task_update_performed[OF task ok, of env dto] assms
  obtain ts where s': "s' = s\<lparr>taskModel := ts\<rparr>"
    and after: "findById task_id ts i = Some (updateDocument env dto task task)"
    by auto
  let ?after = "updateDocument env dto task task"
  have "findById task_id (taskModel s') i = Some ?after"
    using s' after by simp
  moreover have "\<not> truthy (u_assignee dto) \<longrightarrow> assignee ?after = assignee task"
    by (simp add: updateDocument_def ifTruthy_None_iff[symmetric])
  moreover have "\<not> truthy (u_dueDate dto) \<longrightarrow> dueDate ?after = dueDate task"
    by (simp add: updateDocument_def ifTruthy_None_iff[symmetric])
  moreover have "assignee task \<noteq> None \<longrightarrow> assignee ?after \<noteq> None"
    by (simp add: updateDocument_def split: option.splits)
  moreover have "dueDate task \<noteq> None \<longrightarrow> dueDate ?after \<noteq> None"
    by (simp add: updateDocument_def split: option.splits)
  ultimately show ?thesis using task by blast
qed

theorem update_keeps_assignee_and_dueDate_witness:
  "\<exists>r s' after. task_update demoEnv demoStore ''t1'' demoUpdate ''u1'' MEMBER = (Inr r, s')
     \<and> findById task_id (taskModel s') ''t1'' = Some after
     \<and> assignee after = Some ''u1'' \<and> dueDate after = Some 5000"
proof -
  have p: "findById project_id (projectModel demoStore) (projectId demoTask1) = Some demoProject"
    by (simp add: findById_def demo_defs)
  have "isMember demoProject ''u1'' \<and> assignee demoTask1 = Some ''u1''"
    by (simp add: isMember_def demoProject_def demoTask1_def)
  with p task_update_performed[OF demo_task1, of MEMBER "''u1''" demoEnv demoUpdate]
  obtain r s' where u: "task_update demoEnv demoStore ''t1'' demoUpdate ''u1'' MEMBER = (Inr r, s')"
    by blast
  have na: "\<not> truthy (u_assignee demoUpdate)" and nd: "\<not> truthy (u_dueDate demoUpdate)"
    by (simp_all add: truthy_def demoUpdate_def)
  from update_keeps_assignee_and_dueDate[OF u] na nd demo_task1
  obtain after where "findById task_id (taskModel s') ''t1'' = Some after"
    and "assignee after = assignee demoTask1" and "dueDate after = dueDate demoTask1"
    by auto
  then have "findById task_id (taskModel s') ''t1'' = Some after
     \<and> assignee after = Some ''u1'' \<and> dueDate after = Some 5000"
    by (simp add: demoTask1_def)
  with u show ?thesis by blast
qed


section \<open>Pagination of the task list\<close>








lemma parseIntOr_None [simp]: "parseIntOr None d = d"
  by (simp add: parseIntOr_def)












section \<open>The CSV export\<close>








lemma set_sortByCreatedAtDesc [simp]: "set (sortByCreatedAtDesc ts) = set ts"
  by (simp add: sortByCreatedAtDesc_def)

lemma length_sortByCreatedAtDesc [simp]: "length (sortByCreatedAtDesc ts) = length ts"
  by (simp add: sortByCreatedAtDesc_def)














section \<open>The project summary\<close>

text \<open>
  The arithmetic of doubles, checked against the rationals: \<open>nearestDouble\<close> gives a
  mantissa of 53 bits whose value is within half a unit in the last place of the exact
  quotient, and \<open>Math_round\<close> is the floor of the value plus one half.
\<close>

lemma roundQuotient_nearest:
  assumes "0 < b"
  shows "\<bar>rat_of_int (roundQuotient a b) - rat_of_int a / rat_of_int b\<bar> \<le> 1 / 2"
proof -
  define q where "q = a div b"
  define r where "r = a mod b"
  have a: "a = q * b + r" by (simp add: q_def r_def)
  have r: "0 \<le> r" "r < b" using assms by (simp_all add: r_def)
  from assms have bpos: "0 < rat_of_int b" by simp
  have frac: "rat_of_int a / rat_of_int b = rat_of_int q + rat_of_int r / rat_of_int b"
    using bpos by (simp add: a field_simps)
  have r0: "0 \<le> rat_of_int r / rat_of_int b" using r bpos by simp
  have r1: "rat_of_int r / rat_of_int b < 1" using r bpos by simp
  consider "2 * r < b" | "b < 2 * r" | "2 * r = b" by linarith
  then show ?thesis
  proof cases
    case 1
    then have "rat_of_int (2 * r) < rat_of_int b" by (simp only: of_int_less_iff)
    then have "rat_of_int r / rat_of_int b < 1 / 2" using bpos by (simp add: field_simps)
    moreover from 1 have "roundQuotient a b = q" by (simp add: roundQuotient_def q_def r_def Let_def)
    ultimately show ?thesis using r0 by (simp add: frac)
  next
    case 2
    then have "rat_of_int b < rat_of_int (2 * r)" by (simp only: of_int_less_iff)
    then have "1 / 2 < rat_of_int r / rat_of_int b" using bpos by (simp add: field_simps)
    moreover from 2 have "roundQuotient a b = q + 1"
      by (simp add: roundQuotient_def q_def r_def Let_def)
    ultimately show ?thesis using r1 by (simp add: frac)
  next
    case 3
    then have "rat_of_int (2 * r) = rat_of_int b" by simp
    then have h: "rat_of_int r / rat_of_int b = 1 / 2" using bpos by (simp add: field_simps)
    from frac h have fh: "rat_of_int a / rat_of_int b = rat_of_int q + 1 / 2" by simp
    from 3 have "roundQuotient a b = q \<or> roundQuotient a b = q + 1"
      by (simp add: roundQuotient_def q_def r_def Let_def)
    then show ?thesis unfolding fh by auto
  qed
qed

lemma bitlen_powi_bounds:
  assumes "0 < a"
  shows "2 powi (bitlen a - 1) \<le> rat_of_int a \<and> rat_of_int a < 2 powi (bitlen a)"
proof -
  from bitlen_bounds[OF assms]
  have 1: "2 ^ nat (bitlen a - 1) \<le> a" and 2: "a < 2 ^ nat (bitlen a)" by simp_all
  from assms have pos: "1 \<le> bitlen a" by (simp add: bitlen_alt_def)
  from 1 have "rat_of_int (2 ^ nat (bitlen a - 1)) \<le> rat_of_int a" by (simp only: of_int_le_iff)
  then have l: "2 powi (bitlen a - 1) \<le> rat_of_int a"
    using pos by (simp add: power_int_def)
  from 2 have "rat_of_int a < rat_of_int (2 ^ nat (bitlen a))" by (simp only: of_int_less_iff)
  then have u: "rat_of_int a < 2 powi (bitlen a)"
    using pos by (simp add: power_int_def)
  from l u show ?thesis by simp
qed

lemma quotient_exponent_bounds:
  assumes "0 < a" and "0 < b"
  shows "2 powi (bitlen a - bitlen b - 1) < rat_of_int a / rat_of_int b
       \<and> rat_of_int a / rat_of_int b < 2 powi (bitlen a - bitlen b + 1)"
proof -
  from bitlen_powi_bounds[OF assms(1)] bitlen_powi_bounds[OF assms(2)]
  have a: "2 powi (bitlen a - 1) \<le> rat_of_int a" "rat_of_int a < 2 powi (bitlen a)"
    and b: "2 powi (bitlen b - 1) \<le> rat_of_int b" "rat_of_int b < 2 powi (bitlen b)"
    by simp_all
  from assms have ap: "0 < rat_of_int a" and bp: "0 < rat_of_int b" by simp_all
  have pb: "(0::rat) < 2 powi (bitlen b)" and pb1: "(0::rat) < 2 powi (bitlen b - 1)" by simp_all
  have "2 powi (bitlen a - bitlen b - 1) = (2::rat) powi (bitlen a - 1) / 2 powi (bitlen b)"
    by (simp add: power_int_diff)
  also have "\<dots> \<le> rat_of_int a / 2 powi (bitlen b)"
    using a(1) pb by (simp add: divide_right_mono)
  also have "\<dots> < rat_of_int a / rat_of_int b"
    using b(2) ap bp by (simp add: divide_strict_left_mono)
  finally have lower: "2 powi (bitlen a - bitlen b - 1) < rat_of_int a / rat_of_int b" .
  have "rat_of_int a / rat_of_int b < 2 powi (bitlen a) / rat_of_int b"
    using a(2) bp by (simp add: divide_strict_right_mono)
  also have "\<dots> \<le> 2 powi (bitlen a) / 2 powi (bitlen b - 1)"
    using b(1) pb1 bp by (simp add: divide_left_mono)
  also have "\<dots> = (2::rat) powi (bitlen a - bitlen b + 1)"
    by (simp add: power_int_diff power_int_add)
  finally have upper: "rat_of_int a / rat_of_int b < 2 powi (bitlen a - bitlen b + 1)" .
  from lower upper show ?thesis by simp
qed

lemma nearestDouble_correct:
  assumes "0 < a" and "0 < b"
  shows "2 ^ 52 \<le> mant (nearestDouble a b k) \<and> mant (nearestDouble a b k) \<le> 2 ^ 53
       \<and> \<bar>valueOf (nearestDouble a b k) - rat_of_int a / rat_of_int b * 2 powi k\<bar>
           \<le> 2 powi (expo (nearestDouble a b k)) / 2"
proof -
  define x where "x = rat_of_int a / rat_of_int b"
  define e0 where "e0 = bitlen a - bitlen b"
  define T where "T = (if 0 \<le> e0 then 2 ^ nat e0 * b \<le> a else b \<le> 2 ^ nat (- e0) * a)"
  define e where "e = (if T then e0 else e0 - 1)"
  define sh where "sh = e - 52"
  define m where "m = (if 0 \<le> sh then roundQuotient a (b * 2 ^ nat sh)
                       else roundQuotient (a * 2 ^ nat (- sh)) b)"
  have nd: "nearestDouble a b k = \<lparr>mant = m, expo = sh + k\<rparr>"
    by (simp add: nearestDouble_def Let_def m_def sh_def e_def T_def e0_def)
  from assms have ap: "0 < rat_of_int a" and bp: "0 < rat_of_int b" by simp_all
  from quotient_exponent_bounds[OF assms]
  have lo0: "2 powi (e0 - 1) < x" and hi0: "x < 2 powi (e0 + 1)"
    by (simp_all add: x_def e0_def)
  have T: "T = (2 powi e0 \<le> x)"
  proof (cases "0 \<le> e0")
    case True
    have "(2 ^ nat e0 * b \<le> a) = (rat_of_int (2 ^ nat e0 * b) \<le> rat_of_int a)"
      by (simp only: of_int_le_iff)
    also have "\<dots> = (2 powi e0 * rat_of_int b \<le> rat_of_int a)"
      using True by (simp add: power_int_def)
    also have "\<dots> = (2 powi e0 \<le> x)"
      using bp by (simp add: x_def pos_le_divide_eq)
    finally show ?thesis using True by (simp add: T_def)
  next
    case False
    have "(b \<le> 2 ^ nat (- e0) * a) = (rat_of_int b \<le> rat_of_int (2 ^ nat (- e0) * a))"
      by (simp only: of_int_le_iff)
    also have "\<dots> = (rat_of_int b \<le> 2 powi (- e0) * rat_of_int a)"
      using False by (simp add: power_int_def)
    also have "\<dots> = (2 powi e0 \<le> x)"
      using bp by (simp add: x_def power_int_minus field_simps)
    finally show ?thesis using False by (simp add: T_def)
  qed
  have lo: "2 powi e \<le> x" and hi: "x < 2 powi (e + 1)"
    using T lo0 hi0 by (auto simp: e_def)
  define s where "s = x * 2 powi (- sh)"
  have s_lo: "2 ^ 52 \<le> s"
  proof -
    have "(2::rat) ^ 52 = 2 powi e * 2 powi (- sh)"
      by (simp add: sh_def power_int_minus power_int_diff)
    also have "\<dots> \<le> x * 2 powi (- sh)"
      using lo by (simp add: mult_right_mono)
    finally show ?thesis by (simp add: s_def)
  qed
  have s_hi: "s < 2 ^ 53"
  proof -
    have "x * 2 powi (- sh) < 2 powi (e + 1) * 2 powi (- sh)"
      using hi by (simp add: mult_strict_right_mono)
    also have "\<dots> = (2::rat) ^ 53"
      by (simp add: sh_def power_int_minus power_int_diff power_int_add)
    finally show ?thesis by (simp add: s_def)
  qed
  have near: "\<bar>rat_of_int m - s\<bar> \<le> 1 / 2"
  proof (cases "0 \<le> sh")
    case True
    have "rat_of_int a / rat_of_int (b * 2 ^ nat sh) = s"
      using True by (simp add: s_def x_def power_int_minus power_int_def field_simps)
    with roundQuotient_nearest[of "b * 2 ^ nat sh" a] assms True show ?thesis
      by (simp add: m_def)
  next
    case False
    have "rat_of_int (a * 2 ^ nat (- sh)) / rat_of_int b = s"
      using False by (simp add: s_def x_def power_int_def)
    with roundQuotient_nearest[of b "a * 2 ^ nat (- sh)"] assms False show ?thesis
      by (simp add: m_def)
  qed
  have m_lo: "2 ^ 52 \<le> m"
  proof -
    have c: "rat_of_int (2 ^ 52 - 1) = 2 ^ 52 - 1" by simp
    from near s_lo have "(2::rat) ^ 52 - 1 < rat_of_int m" by linarith
    then have "rat_of_int (2 ^ 52 - 1) < rat_of_int m" by (simp only: c)
    then have "2 ^ 52 - 1 < m" by (simp only: of_int_less_iff)
    then show ?thesis by linarith
  qed
  have m_hi: "m \<le> 2 ^ 53"
  proof -
    have c: "rat_of_int (2 ^ 53 + 1) = 2 ^ 53 + 1" by simp
    from near s_hi have "rat_of_int m < (2::rat) ^ 53 + 1" by linarith
    then have "rat_of_int m < rat_of_int (2 ^ 53 + 1)" by (simp only: c)
    then have "m < 2 ^ 53 + 1" by (simp only: of_int_less_iff)
    then show ?thesis by linarith
  qed
  have "valueOf (nearestDouble a b k) - x * 2 powi k = (rat_of_int m - s) * 2 powi (sh + k)"
    by (simp add: nd valueOf_def s_def power_int_minus power_int_add field_simps)
  then have "\<bar>valueOf (nearestDouble a b k) - x * 2 powi k\<bar>
      = \<bar>rat_of_int m - s\<bar> * 2 powi (sh + k)"
    by (simp add: abs_mult)
  also have "\<dots> \<le> 1 / 2 * 2 powi (sh + k)"
    using near by (simp add: mult_right_mono)
  finally have "\<bar>valueOf (nearestDouble a b k) - x * 2 powi k\<bar> \<le> 2 powi (sh + k) / 2"
    by simp
  with m_lo m_hi show ?thesis by (simp add: nd x_def)
qed

lemma Math_round_floor: "Math_round d = \<lfloor>valueOf d + 1 / 2\<rfloor>"
proof (cases "0 \<le> expo d")
  case True
  define n where "n = mant d * 2 ^ nat (expo d)"
  from True have v: "valueOf d = rat_of_int n"
    by (simp add: valueOf_def power_int_def n_def)
  have "\<lfloor>rat_of_int n + 1 / 2\<rfloor> = n"
    by (rule floor_unique) simp_all
  with True show ?thesis by (simp add: Math_round_def v n_def)
next
  case False
  define j where "j = nat (- expo d)"
  from False have e: "expo d = - int j" and j: "nat (1 - expo d) = Suc j"
    by (simp_all add: j_def)
  have "valueOf d + 1 / 2 = rat_of_int (2 * mant d + 2 ^ j) / rat_of_int (2 ^ Suc j)"
    by (simp add: valueOf_def e power_int_minus field_simps)
  then have "\<lfloor>valueOf d + 1 / 2\<rfloor> = (2 * mant d + 2 ^ j) div 2 ^ Suc j"
    by (simp only: floor_divide_of_int_eq)
  with False show ?thesis by (simp add: Math_round_def j j_def)
qed


text \<open>
  The quotient 23/40 as a double is \<open>0x1.2666666666666p-1\<close>, a little below 0.575, and
  its product with 100 is \<open>0x1.cbfffffffffffp+5\<close>, the double printed as
  57.49999999999999.
\<close>

lemma double_23_of_40:
  "fdiv 23 40 = \<lparr>mant = 0x12666666666666, expo = - 53\<rparr>
   \<and> fmul (fdiv 23 40) 100 = \<lparr>mant = 0x1cbfffffffffff, expo = - 47\<rparr>"
  by code_simp

lemma rate_23_of_40: "Math_round (fmul (fdiv 23 40) 100) = 57"
  by code_simp

lemma rate_3_of_10: "Math_round (fmul (fdiv 3 10) 100) = 30"
  by code_simp

lemma summary_counts:
  assumes "getProjectSummary env s pid userId userRole = Inr r"
  shows "sum_total r = length (filter (\<lambda>t. projectId t = pid) (taskModel s))
       \<and> sum_todo r = length (filter (\<lambda>t. projectId t = pid \<and> status t = TODO) (taskModel s))
       \<and> sum_inProgress r
           = length (filter (\<lambda>t. projectId t = pid \<and> status t = IN_PROGRESS) (taskModel s))
       \<and> sum_done r = length (filter (\<lambda>t. projectId t = pid \<and> status t = DONE) (taskModel s))
       \<and> sum_overdue r
           = length (filter (\<lambda>t. projectId t = pid
                                 \<and> (case dueDate t of None \<Rightarrow> False | Some d \<Rightarrow> d < now env)
                                 \<and> status t \<noteq> DONE) (taskModel s))
       \<and> (sum_total r = 0 \<longrightarrow> completionRate r = 0)"
  using assms
  by (cases "findById project_id (projectModel s) pid")
    (auto simp: getProjectSummary_def countDocuments_def Let_def split: if_splits)


text \<open>
  C9. The counts of a summary are the numbers of the project's tasks in each status and
  overdue, and the rate is 0 for a project with no task (above). The rate is not always
  the rounded percentage: for a project with 40 tasks of which 23 are done the summary
  holds \<open>completionRate = 57\<close>, while \<open>round(100 * 23 / 40) = round(57.5) = 58\<close>. The
  code divides first, the quotient 23/40 is rounded to a double, and its product with
  100 is the double just below 57.5.
\<close>

theorem completionRate_half_rounds_down:
  "getProjectSummary demoEnv rateStore ''p2'' ''a1'' ADMIN
     = Inr \<lparr>sum_total = 40, sum_todo = 17, sum_inProgress = 0, sum_done = 23, sum_overdue = 0,
            completionRate = 57\<rparr>
   \<and> \<lfloor>(100 * 23 / 40 :: rat) + 1 / 2\<rfloor> = 58"
proof -
  have "getProjectSummary demoEnv rateStore ''p2'' ''a1'' ADMIN
     = Inr \<lparr>sum_total = 40, sum_todo = 17, sum_inProgress = 0, sum_done = 23, sum_overdue = 0,
            completionRate = 57\<rparr>"
    by code_simp
  moreover have "\<lfloor>(100 * 23 / 40 :: rat) + 1 / 2\<rfloor> = 58"
    by simp
  ultimately show ?thesis by simp
qed


end
